theory Spec2Isabelle
  imports Complex_Main
begin

section \<open>Python values used by the scholarship pipeline\<close>

text \<open>
  A Python \<^verbatim>\<open>str\<close> is a sequence of Unicode code points, and \<^verbatim>\<open>len\<close> counts code
  points, so a string is modelled as a list of code points (natural numbers).  ASCII
  literals of the source are written with \<open>str\<close>.  Python floats are modelled by real
  numbers: the claims below only compare them with constants or multiply them by zero.
\<close>

type_synonym pystr = "nat list"

definition str :: "string \<Rightarrow> pystr" where
  "str s = map of_char s"

text \<open>
  Dates are kept as proleptic Gregorian ordinals (\<^verbatim>\<open>date.toordinal()\<close>), and a
  \<^verbatim>\<open>datetime\<close> as its ordinal together with the microseconds since midnight.
\<close>

type_synonym date = int

record datetime =
  ordinal :: int
  micros :: int

datatype pyval =
    PNone
  | PBool bool
  | PInt int
  | PFloat real
  | PStr pystr
  | PList "pyval list"
  | PDate date
  | PDateTime datetime

section \<open>Amount validation (amount\_parser.py)\<close>


section \<open>Scraped records and their quality score (scraping\_service.py)\<close>

record ScrapedScholarship =
  title :: pystr
  description :: pystr
  amount :: "real option"
  deadline :: "pystr option"
  eligibility :: "pystr list"
  application_url :: pystr
  source :: pystr
  category :: pystr
  level :: pystr
  state :: pystr
  provider :: pystr
  contact_email :: "pystr option"
  contact_phone :: "pystr option"
  application_process :: pystr
  benefits :: "pystr list"
  selection_criteria :: "pystr list"
  required_documents :: "pystr list"
  tags :: "pystr list"
  raw_data :: "(pystr \<times> pyval) list"
  scraped_at :: datetime
  quality_score :: int

text \<open>
  What the scoring reads from outside the record: today's date
  (\<^verbatim>\<open>datetime.now().date()\<close>) and the standard library's
  \<^verbatim>\<open>datetime.fromisoformat(s).date()\<close>, which is \<open>None\<close> here where Python raises.
\<close>

record clock =
  today :: date
  fromisoformat_date :: "pystr \<Rightarrow> date option"

text \<open>
  \<^verbatim>\<open>LinkValidator.validate_url\<close> is an \<^verbatim>\<open>async def\<close> and the scraping service
  calls it without \<^verbatim>\<open>await\<close>: the call yields a coroutine object, which is truthy
  whatever the URL is.
\<close>

definition validate_url_unawaited :: "pystr \<Rightarrow> bool" where
  "validate_url_unawaited url = True"

definition title_points :: "pystr \<Rightarrow> int" where
  "title_points t =
     (if t \<noteq> [] \<and> length t > 10 then 20
      else if t \<noteq> [] \<and> length t > 5 then 15
      else 10)"

definition description_points :: "pystr \<Rightarrow> int" where
  "description_points d =
     (if d \<noteq> [] \<and> length d > 200 then 20
      else if d \<noteq> [] \<and> length d > 100 then 15
      else if d \<noteq> [] \<and> length d > 50 then 10
      else 5)"

definition url_points :: "pystr \<Rightarrow> int" where
  "url_points u = (if u \<noteq> [] \<and> validate_url_unawaited u then 20 else 5)"

definition deadline_points :: "clock \<Rightarrow> pystr option \<Rightarrow> int" where
  "deadline_points c dl =
     (case dl of
        None \<Rightarrow> 5
      | Some s \<Rightarrow>
          (if s = [] then 5
           else (case fromisoformat_date c s of
                   None \<Rightarrow> 5
                 | Some d \<Rightarrow> (if d > today c then 15 else 5))))"

definition amount_points :: "real option \<Rightarrow> int" where
  "amount_points a =
     (case a of
        None \<Rightarrow> 5
      | Some x \<Rightarrow> (if x \<noteq> 0 \<and> x > 0 then 15 else 5))"

definition eligibility_points :: "pystr list \<Rightarrow> int" where
  "eligibility_points e = (if e \<noteq> [] \<and> length e > 0 then 10 else 3)"

text \<open>\<^verbatim>\<open>ScrapingService._calculate_quality_score\<close>: the six additions, then the cap.\<close>

definition calculate_quality_score :: "clock \<Rightarrow> ScrapedScholarship \<Rightarrow> int" where
  "calculate_quality_score c s =
     (let score = 0;
          score = score + title_points (title s);
          score = score + description_points (description s);
          score = score + url_points (application_url s);
          score = score + deadline_points c (deadline s);
          score = score + amount_points (amount s);
          score = score + eligibility_points (eligibility s)
      in min score 100)"




lemma title_points_bounds: "10 \<le> title_points t \<and> title_points t \<le> 20"
  by (simp add: title_points_def)

lemma description_points_bounds: "5 \<le> description_points d \<and> description_points d \<le> 20"
  by (simp add: description_points_def)

lemma url_points_bounds: "5 \<le> url_points u \<and> url_points u \<le> 20"
  by (simp add: url_points_def)

lemma deadline_points_bounds: "5 \<le> deadline_points c dl \<and> deadline_points c dl \<le> 15"
  by (simp add: deadline_points_def split: option.split)

lemma amount_points_bounds: "5 \<le> amount_points a \<and> amount_points a \<le> 15"
  by (simp add: amount_points_def split: option.split)

lemma eligibility_points_bounds: "3 \<le> eligibility_points e \<and> eligibility_points e \<le> 10"
  by (simp add: eligibility_points_def)

text \<open>
  C10: for every scraped scholarship, at every date and whatever the ISO parser answers,
  the quality score is an integer from 33 to 100: each of the six components has a
  positive floor (10, 5, 5, 5, 5 and 3), and the sum is capped at 100.
\<close>

theorem calculate_quality_score_bounds:
  "33 \<le> calculate_quality_score c s \<and> calculate_quality_score c s \<le> 100"
proof -
  note b = title_points_bounds [of "title s"]
    description_points_bounds [of "description s"]
    url_points_bounds [of "application_url s"]
    deadline_points_bounds [of c "deadline s"]
    amount_points_bounds [of "amount s"]
    eligibility_points_bounds [of "eligibility s"]
  show ?thesis
    using b by (simp add: calculate_quality_score_def Let_def)
qed

end
